theory Spec2Isabelle
  imports Main "HOL-Library.Word"
begin

section \<open>Data model of the external scanner (scanner.c)\<close>

text \<open>
  \<^verbatim>\<open>enum TokenType { EMPTY_FIELD, ERROR_SENTINEL };\<close>
  The C enumerators are numbered from 0; \<open>TokenType_value\<close> is that numbering, the
  value stored into the 16-bit \<open>result_symbol\<close> of the lexer.
\<close>

datatype TokenType = EMPTY_FIELD | ERROR_SENTINEL

fun TokenType_value :: "TokenType \<Rightarrow> 16 word" where
  "TokenType_value EMPTY_FIELD = 0"
| "TokenType_value ERROR_SENTINEL = 1"

text \<open>
  \<^verbatim>\<open>const bool *valid_symbols\<close> is an array with one entry per enumerator, read only
  as \<^verbatim>\<open>valid_symbols[EMPTY_FIELD]\<close> and \<^verbatim>\<open>valid_symbols[ERROR_SENTINEL]\<close>:
  a function from the enumerators to \<open>bool\<close>.
\<close>

type_synonym valid_symbols = "TokenType \<Rightarrow> bool"

text \<open>
  The lexer cursor. \<open>lookahead\<close> (\<^verbatim>\<open>int32_t\<close>) and \<open>result_symbol\<close> (a 16-bit symbol)
  are the two data fields the scanner touches. The remaining fields are the state of the
  parsing engine behind the cursor's callbacks: the code points of the document, the
  current position, and the end of the token under construction (\<open>None\<close> while no end
  has been marked).
\<close>

record TSLexer =
  lookahead :: "32 word"
  result_symbol :: "16 word"
  document :: "32 word list"
  current_position :: nat
  token_end_position :: "nat option"

text \<open>
  Modelled from the spec: the cursor's \<^verbatim>\<open>mark_end\<close> callback, declared in
  \<^verbatim>\<open>tree_sitter/parser.h\<close> and implemented by the parsing engine, neither of which is
  among the scanner's sources. The spec: "an operation to mark the current position as
  the end of the token under construction".
\<close>

definition mark_end :: "TSLexer \<Rightarrow> TSLexer" where
  "mark_end lexer = lexer\<lparr>token_end_position := Some (current_position lexer)\<rparr>"

text \<open>
  Modelled from the spec: the look-ahead the engine presents at position \<open>pos\<close> of a
  document ("the single next input code point"). The engine's lexer is not among the
  scanner's sources; at and beyond the end of the document it presents the code point 0,
  its end-of-input convention.
\<close>

definition lookahead_at :: "32 word list \<Rightarrow> nat \<Rightarrow> 32 word" where
  "lookahead_at doc pos = (if pos < length doc then doc ! pos else 0)"

text \<open>
  Modelled from the spec: the cursor the engine hands to the scanner at position \<open>pos\<close> of
  a document. No token end is marked yet and the result symbol is cleared. \<open>eof\<close> is the
  engine's end-of-input test, and \<open>cursor_ok\<close> the engine's invariant that the look-ahead
  field shows the code point at the current position.
\<close>

definition ts_lexer_at :: "32 word list \<Rightarrow> nat \<Rightarrow> TSLexer" where
  "ts_lexer_at doc pos =
     \<lparr>lookahead = lookahead_at doc pos, result_symbol = 0, document = doc,
      current_position = pos, token_end_position = None\<rparr>"

definition eof :: "TSLexer \<Rightarrow> bool" where
  "eof lexer = (length (document lexer) \<le> current_position lexer)"

definition cursor_ok :: "TSLexer \<Rightarrow> bool" where
  "cursor_ok lexer = (lookahead lexer = lookahead_at (document lexer) (current_position lexer))"

text \<open>
  A C character constant such as \<^verbatim>\<open>','\<close> has type \<^verbatim>\<open>int\<close>; compared with an
  \<^verbatim>\<open>int32_t\<close> it is the 32-bit value of its character code. A document given as text
  is the list of these code points.
\<close>

definition char_const :: "char \<Rightarrow> 32 word" where
  "char_const ch = of_nat (of_char ch)"

definition code_points :: "string \<Rightarrow> 32 word list" where
  "code_points s = map char_const s"


section \<open>Lifecycle operations\<close>

text \<open>
  Pointers (\<^verbatim>\<open>void *payload\<close>, \<^verbatim>\<open>char *buffer\<close>) are addresses into a byte-addressed
  memory, \<open>NULL\<close> being address 0. Each operation takes the memory and returns it as it
  leaves it, next to its C return value.
\<close>

type_synonym memory = "nat \<Rightarrow> 8 word"

definition NULL :: nat where
  "NULL = 0"

definition tree_sitter_csv_external_scanner_create :: "memory \<Rightarrow> nat \<times> memory" where
  "tree_sitter_csv_external_scanner_create mem = (NULL, mem)"

definition tree_sitter_psv_external_scanner_create :: "memory \<Rightarrow> nat \<times> memory" where
  "tree_sitter_psv_external_scanner_create mem = tree_sitter_csv_external_scanner_create mem"

definition tree_sitter_tsv_external_scanner_create :: "memory \<Rightarrow> nat \<times> memory" where
  "tree_sitter_tsv_external_scanner_create mem = tree_sitter_csv_external_scanner_create mem"

definition tree_sitter_csv_external_scanner_destroy :: "nat \<Rightarrow> memory \<Rightarrow> memory" where
  "tree_sitter_csv_external_scanner_destroy payload mem = mem"

definition tree_sitter_psv_external_scanner_destroy :: "nat \<Rightarrow> memory \<Rightarrow> memory" where
  "tree_sitter_psv_external_scanner_destroy payload mem =
     tree_sitter_csv_external_scanner_destroy payload mem"

definition tree_sitter_tsv_external_scanner_destroy :: "nat \<Rightarrow> memory \<Rightarrow> memory" where
  "tree_sitter_tsv_external_scanner_destroy payload mem =
     tree_sitter_csv_external_scanner_destroy payload mem"

definition tree_sitter_csv_external_scanner_serialize ::
  "nat \<Rightarrow> nat \<Rightarrow> memory \<Rightarrow> 32 word \<times> memory" where
  "tree_sitter_csv_external_scanner_serialize payload buffer mem = (0, mem)"

definition tree_sitter_psv_external_scanner_serialize ::
  "nat \<Rightarrow> nat \<Rightarrow> memory \<Rightarrow> 32 word \<times> memory" where
  "tree_sitter_psv_external_scanner_serialize payload buffer mem =
     tree_sitter_csv_external_scanner_serialize payload buffer mem"

definition tree_sitter_tsv_external_scanner_serialize ::
  "nat \<Rightarrow> nat \<Rightarrow> memory \<Rightarrow> 32 word \<times> memory" where
  "tree_sitter_tsv_external_scanner_serialize payload buffer mem =
     tree_sitter_csv_external_scanner_serialize payload buffer mem"

definition tree_sitter_csv_external_scanner_deserialize ::
  "nat \<Rightarrow> nat \<Rightarrow> 32 word \<Rightarrow> memory \<Rightarrow> memory" where
  "tree_sitter_csv_external_scanner_deserialize payload buffer len mem = mem"

definition tree_sitter_psv_external_scanner_deserialize ::
  "nat \<Rightarrow> nat \<Rightarrow> 32 word \<Rightarrow> memory \<Rightarrow> memory" where
  "tree_sitter_psv_external_scanner_deserialize payload buffer len mem =
     tree_sitter_csv_external_scanner_deserialize payload buffer len mem"

definition tree_sitter_tsv_external_scanner_deserialize ::
  "nat \<Rightarrow> nat \<Rightarrow> 32 word \<Rightarrow> memory \<Rightarrow> memory" where
  "tree_sitter_tsv_external_scanner_deserialize payload buffer len mem =
     tree_sitter_csv_external_scanner_deserialize payload buffer len mem"


section \<open>Look-ahead classifier\<close>

text \<open>
  \<^verbatim>\<open>return c == ',' || c == '\t' || c == '|';\<close> and
  \<^verbatim>\<open>return c == '\n' || c == '\r';\<close>
\<close>

definition is_separator :: "32 word \<Rightarrow> bool" where
  "is_separator c =
     (c = char_const (CHR '','') \<or> c = char_const (CHR 0x09) \<or> c = char_const (CHR ''|''))"

definition is_newline :: "32 word \<Rightarrow> bool" where
  "is_newline c = (c = char_const (CHR 0x0A) \<or> c = char_const (CHR 0x0D))"


section \<open>The scan procedure\<close>

text \<open>
  The C function returns \<^verbatim>\<open>bool\<close> and acts on the lexer through its pointer; the model
  returns the verdict together with the lexer as the call leaves it. The statements are
  in the order of the source: the two checks of \<open>valid_symbols\<close>, \<open>mark_end\<close>, then the
  two tests of the look-ahead.
\<close>

definition tree_sitter_csv_external_scanner_scan ::
  "nat \<Rightarrow> TSLexer \<Rightarrow> valid_symbols \<Rightarrow> bool \<times> TSLexer" where
  "tree_sitter_csv_external_scanner_scan payload lexer valid_symbols =
     (if valid_symbols ERROR_SENTINEL then (False, lexer)
      else if \<not> valid_symbols EMPTY_FIELD then (False, lexer)
      else let lexer1 = mark_end lexer in
        if is_separator (lookahead lexer1)
        then (True, lexer1\<lparr>result_symbol := TokenType_value EMPTY_FIELD\<rparr>)
        else if is_newline (lookahead lexer1)
        then (True, lexer1\<lparr>result_symbol := TokenType_value EMPTY_FIELD\<rparr>)
        else (False, lexer1))"

definition tree_sitter_psv_external_scanner_scan ::
  "nat \<Rightarrow> TSLexer \<Rightarrow> valid_symbols \<Rightarrow> bool \<times> TSLexer" where
  "tree_sitter_psv_external_scanner_scan payload lexer valid_symbols =
     tree_sitter_csv_external_scanner_scan payload lexer valid_symbols"

definition tree_sitter_tsv_external_scanner_scan ::
  "nat \<Rightarrow> TSLexer \<Rightarrow> valid_symbols \<Rightarrow> bool \<times> TSLexer" where
  "tree_sitter_tsv_external_scanner_scan payload lexer valid_symbols =
     tree_sitter_csv_external_scanner_scan payload lexer valid_symbols"

text \<open>Valid-symbol sets used at concrete inputs.\<close>

fun only_empty_field_valid :: valid_symbols where
  "only_empty_field_valid EMPTY_FIELD = True"
| "only_empty_field_valid ERROR_SENTINEL = False"

fun all_valid :: valid_symbols where
  "all_valid EMPTY_FIELD = True"
| "all_valid ERROR_SENTINEL = True"

fun none_valid :: valid_symbols where
  "none_valid EMPTY_FIELD = False"
| "none_valid ERROR_SENTINEL = False"


abbreviation scan :: "nat \<Rightarrow> TSLexer \<Rightarrow> valid_symbols \<Rightarrow> bool \<times> TSLexer" where
  "scan \<equiv> tree_sitter_csv_external_scanner_scan"


section \<open>Basic facts\<close>

lemma char_const_values:
  "char_const (CHR '','') = 44" "char_const (CHR 0x09) = 9" "char_const (CHR ''|'') = 124"
  "char_const (CHR 0x0A) = 10" "char_const (CHR 0x0D) = 13"
  by (simp_all add: char_const_def)

lemma is_separator_iff: "is_separator c \<longleftrightarrow> c = 44 \<or> c = 9 \<or> c = 124"
  by (simp add: is_separator_def char_const_values)

lemma is_newline_iff: "is_newline c \<longleftrightarrow> c = 10 \<or> c = 13"
  by (simp add: is_newline_def char_const_values)

lemma lookahead_mark_end: "lookahead (mark_end lexer) = lookahead lexer"
  by (simp add: mark_end_def)

lemma sint_code_point:
  "(sint (c :: 32 word) = 44) = (c = 44)" "(sint c = 9) = (c = 9)" "(sint c = 124) = (c = 124)"
  "(sint c = 10) = (c = 10)" "(sint c = 13) = (c = 13)"
  using word_eq_iff_signed [where ?'a = int, of c 44] word_eq_iff_signed [where ?'a = int, of c 9]
    word_eq_iff_signed [where ?'a = int, of c 124] word_eq_iff_signed [where ?'a = int, of c 10]
    word_eq_iff_signed [where ?'a = int, of c 13]
  by simp_all

lemma eof_lookahead_not_trigger:
  "\<not> is_separator (lookahead_at doc (length doc + k))"
  "\<not> is_newline (lookahead_at doc (length doc + k))"
  by (simp_all add: lookahead_at_def is_separator_iff is_newline_iff)

lemma scan_error_sentinel: "vs ERROR_SENTINEL \<Longrightarrow> scan p lx vs = (False, lx)"
  by (simp add: tree_sitter_csv_external_scanner_scan_def)

lemma scan_not_empty_field: "\<not> vs EMPTY_FIELD \<Longrightarrow> scan p lx vs = (False, lx)"
  by (simp add: tree_sitter_csv_external_scanner_scan_def)

lemma scan_trigger:
  "\<not> vs ERROR_SENTINEL \<Longrightarrow> vs EMPTY_FIELD \<Longrightarrow>
   is_separator (lookahead lx) \<or> is_newline (lookahead lx) \<Longrightarrow>
   scan p lx vs = (True, (mark_end lx)\<lparr>result_symbol := TokenType_value EMPTY_FIELD\<rparr>)"
  by (auto simp: tree_sitter_csv_external_scanner_scan_def Let_def lookahead_mark_end)

lemma scan_no_trigger:
  "\<not> vs ERROR_SENTINEL \<Longrightarrow> vs EMPTY_FIELD \<Longrightarrow>
   \<not> is_separator (lookahead lx) \<Longrightarrow> \<not> is_newline (lookahead lx) \<Longrightarrow>
   scan p lx vs = (False, mark_end lx)"
  by (simp add: tree_sitter_csv_external_scanner_scan_def Let_def lookahead_mark_end)

lemma scan_cases:
  "scan p lx vs = (False, lx) \<and> (vs ERROR_SENTINEL \<or> \<not> vs EMPTY_FIELD)
   \<or> scan p lx vs = (False, mark_end lx) \<and> \<not> vs ERROR_SENTINEL \<and> vs EMPTY_FIELD
        \<and> \<not> is_separator (lookahead lx) \<and> \<not> is_newline (lookahead lx)
   \<or> scan p lx vs = (True, (mark_end lx)\<lparr>result_symbol := TokenType_value EMPTY_FIELD\<rparr>)
        \<and> \<not> vs ERROR_SENTINEL \<and> vs EMPTY_FIELD
        \<and> (is_separator (lookahead lx) \<or> is_newline (lookahead lx))"
  using scan_error_sentinel [of vs p lx] scan_not_empty_field [of vs p lx]
    scan_trigger [of vs lx p] scan_no_trigger [of vs lx p]
  by blast

lemma fst_scan:
  "fst (scan p lx vs) =
     (\<not> vs ERROR_SENTINEL \<and> vs EMPTY_FIELD \<and> (is_separator (lookahead lx) \<or> is_newline (lookahead lx)))"
  using scan_cases [of p lx vs] by auto

lemma code_points_a_b_comma: "code_points ''a,b,'' = [97, 44, 98, 44]"
  by (simp add: code_points_def char_const_def)


section \<open>The scan decision\<close>

text \<open>
  C1. For every valid-symbol set and every cursor, scan succeeds and emits an EmptyField
  token exactly when ErrorSentinel is not valid, EmptyField is valid, and the look-ahead
  code point is a separator or a newline character. In every other case the verdict is
  "no token" and the result symbol is left as it was; in particular at a cursor the engine
  places at or beyond the end of the document.
\<close>

theorem scan_emits_empty_field_iff:
  "((fst (scan p lx vs) \<and> result_symbol (snd (scan p lx vs)) = TokenType_value EMPTY_FIELD)
      = (\<not> vs ERROR_SENTINEL \<and> vs EMPTY_FIELD
          \<and> (is_separator (lookahead lx) \<or> is_newline (lookahead lx))))
   \<and> (fst (scan p lx vs)
      = (\<not> vs ERROR_SENTINEL \<and> vs EMPTY_FIELD
          \<and> (is_separator (lookahead lx) \<or> is_newline (lookahead lx))))
   \<and> (fst (scan p lx vs) \<or> result_symbol (snd (scan p lx vs)) = result_symbol lx)
   \<and> fst (scan p (ts_lexer_at doc (length doc + k)) vs) = False"
proof -
  have "fst (scan p (ts_lexer_at doc (length doc + k)) vs) = False"
    by (simp add: fst_scan ts_lexer_at_def eof_lookahead_not_trigger)
  moreover have "fst (scan p lx vs) \<or> result_symbol (snd (scan p lx vs)) = result_symbol lx"
    using scan_cases [of p lx vs] by (auto simp: mark_end_def)
  moreover have "result_symbol (snd (scan p lx vs)) = TokenType_value EMPTY_FIELD"
    if "fst (scan p lx vs)"
    using that scan_cases [of p lx vs] by auto
  ultimately show ?thesis
    using fst_scan [of p lx vs] by blast
qed

theorem scan_emits_empty_field_iff_witness:
  "scan NULL (ts_lexer_at (code_points ''a,b,'') 3) only_empty_field_valid
     = (True, \<lparr>lookahead = 44, result_symbol = 0, document = [97, 44, 98, 44],
               current_position = 3, token_end_position = Some 3\<rparr>)
   \<and> \<not> fst (scan NULL (ts_lexer_at (code_points ''a,b,'') 2) only_empty_field_valid)
   \<and> \<not> fst (scan NULL (ts_lexer_at (code_points ''a,b,'') 3) all_valid)
   \<and> \<not> fst (scan NULL (ts_lexer_at (code_points ''a,b,'') 3) none_valid)
   \<and> \<not> fst (scan NULL (ts_lexer_at (code_points ''a,b,'') 4) only_empty_field_valid)"
  using scan_emits_empty_field_iff [of NULL "ts_lexer_at (code_points ''a,b,'') 3"
      only_empty_field_valid "code_points ''a,b,''" 0]
    scan_emits_empty_field_iff [of NULL "ts_lexer_at (code_points ''a,b,'') 2"
      only_empty_field_valid "[]" 0]
    scan_emits_empty_field_iff [of NULL "ts_lexer_at (code_points ''a,b,'') 3" all_valid "[]" 0]
    scan_emits_empty_field_iff [of NULL "ts_lexer_at (code_points ''a,b,'') 3" none_valid "[]" 0]
  by (simp add: code_points_a_b_comma ts_lexer_at_def lookahead_at_def is_separator_iff
      is_newline_iff tree_sitter_csv_external_scanner_scan_def mark_end_def)

text \<open>
  C2. Whenever ErrorSentinel is in the valid-symbol set, scan returns "no token" and
  leaves the cursor untouched, whatever the payload, the look-ahead and the validity of
  EmptyField.
\<close>

theorem scan_declines_during_error_recovery:
  "vs ERROR_SENTINEL \<Longrightarrow> scan p lx vs = (False, lx)"
  by (simp add: tree_sitter_csv_external_scanner_scan_def)

theorem scan_declines_during_error_recovery_witness:
  "all_valid ERROR_SENTINEL \<and> all_valid EMPTY_FIELD
   \<and> is_separator (lookahead (ts_lexer_at (code_points ''a,b,'') 3))
   \<and> scan NULL (ts_lexer_at (code_points ''a,b,'') 3) all_valid
       = (False, ts_lexer_at (code_points ''a,b,'') 3)"
  using scan_declines_during_error_recovery [of all_valid NULL
      "ts_lexer_at (code_points ''a,b,'') 3"]
  by (simp add: code_points_a_b_comma ts_lexer_at_def lookahead_at_def is_separator_iff)

text \<open>
  C3. With EmptyField valid and ErrorSentinel not valid, a cursor at end of input (whose
  look-ahead is the engine's end-of-input code point) makes scan return "no token": it
  only marks the token end.
\<close>

theorem scan_no_token_at_end_of_input:
  "\<not> vs ERROR_SENTINEL \<Longrightarrow> vs EMPTY_FIELD \<Longrightarrow> cursor_ok lx \<Longrightarrow> eof lx \<Longrightarrow>
   scan p lx vs = (False, mark_end lx)"
proof -
  assume gates: "\<not> vs ERROR_SENTINEL" "vs EMPTY_FIELD" and ok: "cursor_ok lx" and e: "eof lx"
  from ok e have "lookahead lx = 0"
    by (simp add: cursor_ok_def eof_def lookahead_at_def)
  then have "\<not> is_separator (lookahead lx)" "\<not> is_newline (lookahead lx)"
    by (simp_all add: is_separator_iff is_newline_iff)
  with gates show ?thesis
    by (rule scan_no_trigger)
qed

theorem scan_no_token_at_end_of_input_witness:
  "\<not> only_empty_field_valid ERROR_SENTINEL \<and> only_empty_field_valid EMPTY_FIELD
   \<and> cursor_ok (ts_lexer_at (code_points ''a,b,'') 4)
   \<and> eof (ts_lexer_at (code_points ''a,b,'') 4)
   \<and> scan NULL (ts_lexer_at (code_points ''a,b,'') 4) only_empty_field_valid
       = (False, \<lparr>lookahead = 0, result_symbol = 0, document = [97, 44, 98, 44],
                  current_position = 4, token_end_position = Some 4\<rparr>)"
  using scan_no_token_at_end_of_input [of only_empty_field_valid
      "ts_lexer_at (code_points ''a,b,'') 4" NULL]
  by (simp add: code_points_a_b_comma ts_lexer_at_def lookahead_at_def cursor_ok_def eof_def
      mark_end_def)

text \<open>
  C4 (as stated). For the document \<open>a,b,\<close> with the cursor after the trailing comma, the
  look-ahead at end of input, EmptyField valid and ErrorSentinel not valid, the claim has
  scan emit an EmptyField token. The scanner returns "no token" there.
\<close>

theorem trailing_comma_at_eof_counterexample:
  "only_empty_field_valid EMPTY_FIELD \<and> \<not> only_empty_field_valid ERROR_SENTINEL
   \<and> eof (ts_lexer_at (code_points ''a,b,'') 4)
   \<and> cursor_ok (ts_lexer_at (code_points ''a,b,'') 4)
   \<and> \<not> fst (tree_sitter_csv_external_scanner_scan NULL
             (ts_lexer_at (code_points ''a,b,'') 4) only_empty_field_valid)"
  by (simp add: code_points_a_b_comma ts_lexer_at_def lookahead_at_def cursor_ok_def eof_def
      fst_scan is_separator_iff is_newline_iff)

text \<open>
  C4 (amended). For the document \<open>a,b,\<close> with the cursor after the trailing comma at end
  of input, EmptyField valid and ErrorSentinel not valid, scan marks the token end and
  returns "no token". When the document goes on after that comma, scan emits EmptyField at
  the same boundary exactly when the next code point is a separator or a newline.
\<close>

theorem trailing_comma_empty_field_needs_follower:
  "\<not> vs ERROR_SENTINEL \<Longrightarrow> vs EMPTY_FIELD \<Longrightarrow>
   scan p (ts_lexer_at (code_points ''a,b,'') 4) vs
     = (False, mark_end (ts_lexer_at (code_points ''a,b,'') 4))
   \<and> scan p (ts_lexer_at (code_points ''a,b,'' @ c # rest) 4) vs
     = (if is_separator c \<or> is_newline c
        then (True, (mark_end (ts_lexer_at (code_points ''a,b,'' @ c # rest) 4))
                      \<lparr>result_symbol := TokenType_value EMPTY_FIELD\<rparr>)
        else (False, mark_end (ts_lexer_at (code_points ''a,b,'' @ c # rest) 4)))"
proof -
  assume gates: "\<not> vs ERROR_SENTINEL" "vs EMPTY_FIELD"
  have la_end: "lookahead (ts_lexer_at (code_points ''a,b,'') 4) = 0"
    by (simp add: code_points_a_b_comma ts_lexer_at_def lookahead_at_def)
  have la_next: "lookahead (ts_lexer_at (code_points ''a,b,'' @ c # rest) 4) = c"
    by (simp add: code_points_a_b_comma ts_lexer_at_def lookahead_at_def)
  have "scan p (ts_lexer_at (code_points ''a,b,'') 4) vs
      = (False, mark_end (ts_lexer_at (code_points ''a,b,'') 4))"
    using gates by (rule scan_no_trigger) (simp_all add: la_end is_separator_iff is_newline_iff)
  moreover have "scan p (ts_lexer_at (code_points ''a,b,'' @ c # rest) 4) vs
      = (True, (mark_end (ts_lexer_at (code_points ''a,b,'' @ c # rest) 4))
                 \<lparr>result_symbol := TokenType_value EMPTY_FIELD\<rparr>)"
    if "is_separator c \<or> is_newline c"
    using scan_trigger [OF gates, of "ts_lexer_at (code_points ''a,b,'' @ c # rest) 4" p] that
    by (simp add: la_next)
  moreover have "scan p (ts_lexer_at (code_points ''a,b,'' @ c # rest) 4) vs
      = (False, mark_end (ts_lexer_at (code_points ''a,b,'' @ c # rest) 4))"
    if "\<not> (is_separator c \<or> is_newline c)"
    using scan_no_trigger [OF gates, of "ts_lexer_at (code_points ''a,b,'' @ c # rest) 4" p] that
    by (simp add: la_next)
  ultimately show ?thesis
    by (simp only: if_split) blast
qed

theorem trailing_comma_empty_field_needs_follower_witness:
  "\<not> only_empty_field_valid ERROR_SENTINEL \<and> only_empty_field_valid EMPTY_FIELD
   \<and> scan NULL (ts_lexer_at (code_points ''a,b,'') 4) only_empty_field_valid
       = (False, \<lparr>lookahead = 0, result_symbol = 0, document = [97, 44, 98, 44],
                  current_position = 4, token_end_position = Some 4\<rparr>)
   \<and> scan NULL (ts_lexer_at (code_points ''a,b,'' @ [10]) 4) only_empty_field_valid
       = (True, \<lparr>lookahead = 10, result_symbol = 0, document = [97, 44, 98, 44, 10],
                 current_position = 4, token_end_position = Some 4\<rparr>)"
  using trailing_comma_empty_field_needs_follower [of only_empty_field_valid NULL 10 "[]"]
  by (simp add: code_points_a_b_comma ts_lexer_at_def lookahead_at_def mark_end_def
      is_newline_iff)


section \<open>Effects on the cursor\<close>

text \<open>
  C5. Every call of scan leaves the cursor's position, document and look-ahead as they
  were: it never advances, and all it may do to the cursor is mark the token end at the
  current position and store the result symbol. The mark does not depend on the
  look-ahead (it is set before the look-ahead is inspected), and whenever scan succeeds
  the token end is the position at which scan was called, so the token is zero-width.
\<close>

theorem scan_consumes_nothing:
  "current_position (snd (scan p lx vs)) = current_position lx
   \<and> document (snd (scan p lx vs)) = document lx
   \<and> lookahead (snd (scan p lx vs)) = lookahead lx
   \<and> (snd (scan p lx vs) = lx \<or> snd (scan p lx vs) = mark_end lx
        \<or> snd (scan p lx vs) = (mark_end lx)\<lparr>result_symbol := TokenType_value EMPTY_FIELD\<rparr>)
   \<and> token_end_position (snd (scan p (lx\<lparr>lookahead := la\<rparr>) vs))
        = token_end_position (snd (scan p lx vs))
   \<and> (fst (scan p lx vs) \<longrightarrow>
        token_end_position (snd (scan p lx vs)) = Some (current_position lx))"
proof -
  have frame: "current_position (snd (scan p lx vs)) = current_position lx
      \<and> document (snd (scan p lx vs)) = document lx
      \<and> lookahead (snd (scan p lx vs)) = lookahead lx"
    using scan_cases [of p lx vs] by (auto simp: mark_end_def)
  have shape: "snd (scan p lx vs) = lx \<or> snd (scan p lx vs) = mark_end lx
      \<or> snd (scan p lx vs) = (mark_end lx)\<lparr>result_symbol := TokenType_value EMPTY_FIELD\<rparr>"
    using scan_cases [of p lx vs] by auto
  have mark: "token_end_position (snd (scan p l vs))
      = (if \<not> vs ERROR_SENTINEL \<and> vs EMPTY_FIELD then Some (current_position l)
         else token_end_position l)" for l
    using scan_cases [of p l vs] by (auto simp: mark_end_def)
  have indep: "token_end_position (snd (scan p (lx\<lparr>lookahead := la\<rparr>) vs))
      = token_end_position (snd (scan p lx vs))"
    by (simp add: mark)
  have width: "token_end_position (snd (scan p lx vs)) = Some (current_position lx)"
    if "fst (scan p lx vs)"
    using that by (simp add: mark fst_scan)
  from frame shape indep width show ?thesis
    by blast
qed

theorem scan_consumes_nothing_witness:
  "fst (scan NULL (ts_lexer_at (code_points ''a,b,'') 1) only_empty_field_valid)
   \<and> current_position (snd (scan NULL (ts_lexer_at (code_points ''a,b,'') 1)
        only_empty_field_valid)) = 1
   \<and> token_end_position (snd (scan NULL (ts_lexer_at (code_points ''a,b,'') 1)
        only_empty_field_valid)) = Some 1
   \<and> token_end_position (snd (scan NULL ((ts_lexer_at (code_points ''a,b,'') 1)
        \<lparr>lookahead := 98\<rparr>) only_empty_field_valid)) = Some 1"
  using scan_consumes_nothing [of NULL "ts_lexer_at (code_points ''a,b,'') 1"
      only_empty_field_valid 98]
  by (simp add: code_points_a_b_comma ts_lexer_at_def lookahead_at_def fst_scan
      is_separator_iff)

text \<open>
  C10. When ErrorSentinel is not valid and EmptyField is valid, scan marks the token end
  at the current position before it looks at the look-ahead, also when it then returns
  "no token": such a call leaves the cursor as \<open>mark_end\<close> leaves it. When one of the two
  valid-symbol checks declines, the cursor is untouched. So for a cursor whose token end
  is not already at the current position, a declining call leaves the cursor unchanged
  exactly when it declined at one of the two valid-symbol checks.
\<close>

theorem scan_declining_still_marks_end:
  "(\<not> vs ERROR_SENTINEL \<and> vs EMPTY_FIELD \<longrightarrow>
      token_end_position (snd (scan p lx vs)) = Some (current_position lx)
      \<and> (\<not> fst (scan p lx vs) \<longrightarrow> scan p lx vs = (False, mark_end lx)))
   \<and> (vs ERROR_SENTINEL \<or> \<not> vs EMPTY_FIELD \<longrightarrow> scan p lx vs = (False, lx))
   \<and> (token_end_position lx \<noteq> Some (current_position lx) \<longrightarrow>
        (scan p lx vs = (False, lx)) = (vs ERROR_SENTINEL \<or> \<not> vs EMPTY_FIELD))"
proof -
  have neq: "mark_end lx \<noteq> lx" if "token_end_position lx \<noteq> Some (current_position lx)"
  proof
    assume "mark_end lx = lx"
    then have "token_end_position (mark_end lx) = token_end_position lx"
      by simp
    with that show False
      by (simp add: mark_end_def)
  qed
  have marked: "token_end_position (mark_end lx) = Some (current_position lx)"
    "token_end_position ((mark_end lx)\<lparr>result_symbol := TokenType_value EMPTY_FIELD\<rparr>)
       = Some (current_position lx)"
    by (simp_all add: mark_end_def)
  show ?thesis
    using scan_cases [of p lx vs] neq marked by auto
qed

theorem scan_declining_still_marks_end_witness:
  "\<not> only_empty_field_valid ERROR_SENTINEL \<and> only_empty_field_valid EMPTY_FIELD
   \<and> token_end_position (ts_lexer_at (code_points ''a,b,'') 2) = None
   \<and> scan NULL (ts_lexer_at (code_points ''a,b,'') 2) only_empty_field_valid
       = (False, \<lparr>lookahead = 98, result_symbol = 0, document = [97, 44, 98, 44],
                  current_position = 2, token_end_position = Some 2\<rparr>)
   \<and> scan NULL (ts_lexer_at (code_points ''a,b,'') 2) none_valid
       = (False, ts_lexer_at (code_points ''a,b,'') 2)
   \<and> scan NULL (ts_lexer_at (code_points ''a,b,'') 2) all_valid
       = (False, ts_lexer_at (code_points ''a,b,'') 2)"
  using scan_declining_still_marks_end [of only_empty_field_valid NULL
      "ts_lexer_at (code_points ''a,b,'') 2"]
    scan_declining_still_marks_end [of none_valid NULL "ts_lexer_at (code_points ''a,b,'') 2"]
    scan_declining_still_marks_end [of all_valid NULL "ts_lexer_at (code_points ''a,b,'') 2"]
  by (simp add: code_points_a_b_comma ts_lexer_at_def lookahead_at_def mark_end_def fst_scan
      is_separator_iff is_newline_iff)


section \<open>Classifier, determinism, dialects and lifecycle\<close>

text \<open>
  C6. For every 32-bit code point \<open>c\<close>, read as a signed integer: \<open>is_separator c\<close> holds
  exactly for comma (44), horizontal tab (9) and vertical bar (124), and \<open>is_newline c\<close>
  exactly for line feed (10) and carriage return (13). The predicates take no dialect:
  the scan entry points of all three dialects accept the same set of look-ahead code
  points.
\<close>

theorem classifier_character_sets:
  "is_separator c = (sint c = 44 \<or> sint c = 9 \<or> sint c = 124)
   \<and> is_newline c = (sint c = 10 \<or> sint c = 13)
   \<and> fst (tree_sitter_csv_external_scanner_scan p lx only_empty_field_valid)
        = (sint (lookahead lx) = 44 \<or> sint (lookahead lx) = 9 \<or> sint (lookahead lx) = 124
           \<or> sint (lookahead lx) = 10 \<or> sint (lookahead lx) = 13)
   \<and> fst (tree_sitter_psv_external_scanner_scan p lx only_empty_field_valid)
        = (sint (lookahead lx) = 44 \<or> sint (lookahead lx) = 9 \<or> sint (lookahead lx) = 124
           \<or> sint (lookahead lx) = 10 \<or> sint (lookahead lx) = 13)
   \<and> fst (tree_sitter_tsv_external_scanner_scan p lx only_empty_field_valid)
        = (sint (lookahead lx) = 44 \<or> sint (lookahead lx) = 9 \<or> sint (lookahead lx) = 124
           \<or> sint (lookahead lx) = 10 \<or> sint (lookahead lx) = 13)"
proof -
  have sep: "is_separator x = (sint x = 44 \<or> sint x = 9 \<or> sint x = 124)" for x
    by (simp add: is_separator_iff sint_code_point)
  have nl: "is_newline x = (sint x = 10 \<or> sint x = 13)" for x
    by (simp add: is_newline_iff sint_code_point)
  have csv: "fst (tree_sitter_csv_external_scanner_scan p lx only_empty_field_valid)
      = (is_separator (lookahead lx) \<or> is_newline (lookahead lx))"
    by (simp add: fst_scan)
  show ?thesis
    unfolding tree_sitter_psv_external_scanner_scan_def tree_sitter_tsv_external_scanner_scan_def
      csv
    using sep [of c] nl [of c] sep [of "lookahead lx"] nl [of "lookahead lx"]
    by blast
qed

theorem classifier_character_sets_witness:
  "is_separator 44 \<and> is_separator 9 \<and> is_separator 124 \<and> is_newline 10 \<and> is_newline 13
   \<and> \<not> is_separator 10 \<and> \<not> is_newline 44 \<and> \<not> is_separator 0 \<and> \<not> is_newline 0
   \<and> \<not> is_separator 59 \<and> \<not> is_separator (- 84)"
  using classifier_character_sets [of 44] classifier_character_sets [of 9]
    classifier_character_sets [of 124] classifier_character_sets [of 10]
    classifier_character_sets [of 13] classifier_character_sets [of 0]
    classifier_character_sets [of 59] classifier_character_sets [of "- 84"]
  by simp

text \<open>
  C7. The outcome of scan is a function of its inputs alone. Two calls that see the same
  cursor and the same valid-symbol entries return the same verdict and leave the cursor
  the same, whatever their payloads; and the verdict and the emitted token kind depend on
  nothing but the look-ahead code point and the two valid-symbol entries.
\<close>

theorem scan_deterministic:
  "vs1 EMPTY_FIELD = vs2 EMPTY_FIELD \<Longrightarrow> vs1 ERROR_SENTINEL = vs2 ERROR_SENTINEL \<Longrightarrow>
   lookahead lx1 = lookahead lx2 \<Longrightarrow>
   fst (scan p1 lx1 vs1) = fst (scan p2 lx2 vs2)
   \<and> (fst (scan p1 lx1 vs1) \<longrightarrow>
        result_symbol (snd (scan p1 lx1 vs1)) = TokenType_value EMPTY_FIELD
        \<and> result_symbol (snd (scan p2 lx2 vs2)) = TokenType_value EMPTY_FIELD)
   \<and> (lx1 = lx2 \<longrightarrow> scan p1 lx1 vs1 = scan p2 lx2 vs2)"
proof -
  assume e: "vs1 EMPTY_FIELD = vs2 EMPTY_FIELD" and s: "vs1 ERROR_SENTINEL = vs2 ERROR_SENTINEL"
    and la: "lookahead lx1 = lookahead lx2"
  have verdict: "fst (scan p1 lx1 vs1) = fst (scan p2 lx2 vs2)"
    by (simp add: fst_scan e s la)
  have kind: "result_symbol (snd (scan p l vs)) = TokenType_value EMPTY_FIELD"
    if "fst (scan p l vs)" for p l vs
    using that scan_cases [of p l vs] by auto
  have same: "scan p1 lx1 vs1 = scan p2 lx2 vs2" if "lx1 = lx2"
    using that e s by (simp add: tree_sitter_csv_external_scanner_scan_def)
  from verdict kind same show ?thesis
    by metis
qed

theorem scan_deterministic_witness:
  "only_empty_field_valid EMPTY_FIELD = only_empty_field_valid EMPTY_FIELD
   \<and> lookahead (ts_lexer_at (code_points ''a,b,'') 1)
       = lookahead (ts_lexer_at (code_points '',,'') 0)
   \<and> fst (scan NULL (ts_lexer_at (code_points ''a,b,'') 1) only_empty_field_valid)
   \<and> fst (scan 7 (ts_lexer_at (code_points '',,'') 0) only_empty_field_valid)
   \<and> result_symbol (snd (scan 7 (ts_lexer_at (code_points '',,'') 0) only_empty_field_valid))
       = TokenType_value EMPTY_FIELD"
  using scan_deterministic [of only_empty_field_valid only_empty_field_valid
      "ts_lexer_at (code_points ''a,b,'') 1" "ts_lexer_at (code_points '',,'') 0" NULL 7]
  by (simp add: code_points_def char_const_def ts_lexer_at_def lookahead_at_def fst_scan
      is_separator_iff)

text \<open>
  C8. The entry points of the pipe and tab dialects return exactly what the
  comma-dialect functions return, for every payload, lexer, valid-symbol set, buffer,
  length and memory: scan, create, destroy, serialize and deserialize.
\<close>

theorem dialect_entry_points_equal:
  "tree_sitter_psv_external_scanner_scan = tree_sitter_csv_external_scanner_scan
   \<and> tree_sitter_tsv_external_scanner_scan = tree_sitter_csv_external_scanner_scan
   \<and> tree_sitter_psv_external_scanner_create = tree_sitter_csv_external_scanner_create
   \<and> tree_sitter_tsv_external_scanner_create = tree_sitter_csv_external_scanner_create
   \<and> tree_sitter_psv_external_scanner_destroy = tree_sitter_csv_external_scanner_destroy
   \<and> tree_sitter_tsv_external_scanner_destroy = tree_sitter_csv_external_scanner_destroy
   \<and> tree_sitter_psv_external_scanner_serialize = tree_sitter_csv_external_scanner_serialize
   \<and> tree_sitter_tsv_external_scanner_serialize = tree_sitter_csv_external_scanner_serialize
   \<and> tree_sitter_psv_external_scanner_deserialize
        = tree_sitter_csv_external_scanner_deserialize
   \<and> tree_sitter_tsv_external_scanner_deserialize
        = tree_sitter_csv_external_scanner_deserialize"
proof -
  have "tree_sitter_psv_external_scanner_scan = tree_sitter_csv_external_scanner_scan"
    "tree_sitter_tsv_external_scanner_scan = tree_sitter_csv_external_scanner_scan"
    by (simp_all add: fun_eq_iff tree_sitter_psv_external_scanner_scan_def
        tree_sitter_tsv_external_scanner_scan_def)
  moreover have "tree_sitter_psv_external_scanner_create = tree_sitter_csv_external_scanner_create"
    "tree_sitter_tsv_external_scanner_create = tree_sitter_csv_external_scanner_create"
    by (simp_all add: fun_eq_iff tree_sitter_psv_external_scanner_create_def
        tree_sitter_tsv_external_scanner_create_def)
  moreover have "tree_sitter_psv_external_scanner_destroy = tree_sitter_csv_external_scanner_destroy"
    "tree_sitter_tsv_external_scanner_destroy = tree_sitter_csv_external_scanner_destroy"
    by (simp_all add: fun_eq_iff tree_sitter_psv_external_scanner_destroy_def
        tree_sitter_tsv_external_scanner_destroy_def)
  moreover have
    "tree_sitter_psv_external_scanner_serialize = tree_sitter_csv_external_scanner_serialize"
    "tree_sitter_tsv_external_scanner_serialize = tree_sitter_csv_external_scanner_serialize"
    by (simp_all add: fun_eq_iff tree_sitter_psv_external_scanner_serialize_def
        tree_sitter_tsv_external_scanner_serialize_def)
  moreover have
    "tree_sitter_psv_external_scanner_deserialize = tree_sitter_csv_external_scanner_deserialize"
    "tree_sitter_tsv_external_scanner_deserialize = tree_sitter_csv_external_scanner_deserialize"
    by (simp_all add: fun_eq_iff tree_sitter_psv_external_scanner_deserialize_def
        tree_sitter_tsv_external_scanner_deserialize_def)
  ultimately show ?thesis
    by (intro conjI)
qed

text \<open>
  C9. For every handle, buffer and memory, serialize reports length zero and writes
  nothing; deserialize of any buffer of any length changes nothing; so deserializing what
  serialize produced gives back the memory, and with it the handle's (empty) state, as
  it was. The handle that create returns is the null pointer.
\<close>

theorem serialize_deserialize_stateless:
  "tree_sitter_csv_external_scanner_serialize payload buffer mem = (0, mem)
   \<and> tree_sitter_csv_external_scanner_deserialize payload buffer' len mem = mem
   \<and> tree_sitter_csv_external_scanner_deserialize payload buffer
        (fst (tree_sitter_csv_external_scanner_serialize payload buffer mem))
        (snd (tree_sitter_csv_external_scanner_serialize payload buffer mem)) = mem
   \<and> tree_sitter_csv_external_scanner_create mem = (NULL, mem)"
  by (simp add: tree_sitter_csv_external_scanner_serialize_def
      tree_sitter_csv_external_scanner_deserialize_def tree_sitter_csv_external_scanner_create_def)

end
